theory Spec2Isabelle
  imports Complex_Main
begin

section \<open>Numbers, vectors and the Eigen operations the generators call\<close>

text \<open>
  A C++ \<open>double\<close> is idealised as a real number: rounding, overflow and NaN are not
  modelled. A \<open>VectorXd\<close> (and the fixed-size \<open>Vector3d\<close>, \<open>Vector6d\<close>) is the list of its
  coefficients, a \<open>Matrix3d\<close> the list of its rows.

  The one non-finite value the program itself writes is
  \<open>std::numeric_limits<double>::infinity()\<close>, stored into \<open>max_jerk\<close> by
  \<open>disableJerkLimits\<close>. The coefficients of \<open>max_jerk\<close> therefore range over the reals
  extended by that value.
\<close>

type_synonym VectorXd = "real list"

type_synonym Matrix3d = "real list list"

datatype jerk_limit = Finite real | Infinity

text \<open>\<open>v.setZero()\<close> keeps the size of \<open>v\<close> and overwrites every coefficient.\<close>

definition setZero :: "VectorXd \<Rightarrow> VectorXd" where
  "setZero v = map (\<lambda>_. 0) v"

text \<open>\<open>VectorXd::Zero(n)\<close>.\<close>

definition Zero :: "nat \<Rightarrow> VectorXd" where
  "Zero n = replicate n 0"

text \<open>\<open>v.squaredNorm()\<close> and \<open>v.norm()\<close>; both are 0 on the empty vector.\<close>

definition squaredNorm :: "VectorXd \<Rightarrow> real" where
  "squaredNorm v = sum_list (map (\<lambda>x. x * x) v)"

definition norm_v :: "VectorXd \<Rightarrow> real" where
  "norm_v v = sqrt (squaredNorm v)"

text \<open>
  \<open>a.isApprox(b)\<close> with Eigen's default precision for \<open>double\<close>
  (\<open>NumTraits<double>::dummy_precision()\<close>, 1e-12):
  \<open>(a - b).squaredNorm() <= prec * prec * min(a.squaredNorm(), b.squaredNorm())\<close>.
  The generators only compare vectors of equal size.
\<close>

definition dummy_precision :: real where
  "dummy_precision = 1 / 10 ^ 12"

definition isApprox :: "VectorXd \<Rightarrow> VectorXd \<Rightarrow> bool" where
  "isApprox a b \<longleftrightarrow>
     squaredNorm (map2 (-) a b)
       \<le> dummy_precision * dummy_precision * min (squaredNorm a) (squaredNorm b)"

text \<open>
  \<open>v.minCoeff()\<close>. Eigen requires a non-empty vector (``the matrix must be not empty,
  otherwise an assertion is triggered''), so the empty vector has no minimum: \<open>None\<close>.
\<close>

fun minCoeff :: "VectorXd \<Rightarrow> real option" where
  "minCoeff [] = None"
| "minCoeff (x # xs) = Some (fold min xs x)"

text \<open>\<open>v.tail<3>()\<close>: the last three coefficients.\<close>

definition tail3 :: "VectorXd \<Rightarrow> VectorXd" where
  "tail3 v = drop (length v - 3) v"

text \<open>The product \<open>M * v\<close> of a matrix (list of rows) with a vector.\<close>

definition mat_vec :: "Matrix3d \<Rightarrow> VectorXd \<Rightarrow> VectorXd" where
  "mat_vec M v = map (\<lambda>row. sum_list (map2 (*) row v)) M"

section \<open>The Ruckig parameter objects\<close>

text \<open>
  The result of one solver call. Ruckig's negative result codes all take the same path
  through \<open>update\<close> (the final \<open>throw\<close>); they are the single value \<open>Error\<close>, as in the
  solver contract of the specification.
\<close>

datatype Result = Working | Finished | Error

datatype Synchronization = Time | TimeIfNecessary | Phase | NoSynchronization

record InputParameter =
  current_position :: VectorXd
  current_velocity :: VectorXd
  current_acceleration :: VectorXd
  target_position :: VectorXd
  target_velocity :: VectorXd
  max_velocity :: VectorXd
  max_acceleration :: VectorXd
  max_jerk :: "jerk_limit list"
  synchronization :: Synchronization

record OutputParameter =
  new_position :: VectorXd
  new_velocity :: VectorXd
  new_acceleration :: VectorXd

text \<open>\<open>output.pass_to_input(input)\<close> copies the new kinematic state into the input.\<close>

definition pass_to_input :: "OutputParameter \<Rightarrow> InputParameter \<Rightarrow> InputParameter" where
  "pass_to_input out inp =
     inp\<lparr>current_position := new_position out,
         current_velocity := new_velocity out,
         current_acceleration := new_acceleration out\<rparr>"

text \<open>
  The profile solver \<open>_otg->update(_input, _output)\<close> is external: it reads the input,
  returns a result value and writes the output. It is a parameter of \<open>update\<close>.
\<close>

type_synonym solver = "InputParameter \<Rightarrow> OutputParameter \<Rightarrow> Result \<times> OutputParameter"

section \<open>The joint trajectory generator\<close>

datatype error = invalid_argument | runtime_error

text \<open>
  How a member function ends: it returns, it throws (the object is left in the state
  reached at the \<open>throw\<close>), or an Eigen assertion stops the program.
\<close>

datatype 's outcome = Returned 's | Thrown error 's | Aborted

text \<open>
  The member \<open>_goal_position_eigen\<close>, which \<open>update\<close> hands to \<open>setGoalPosition\<close>, is
  declared in \<open>OTG_joints.h\<close>, which is not among the sources. It is a field of the
  object. No function of \<open>OTG_joints.cpp\<close> assigns it, the constructor included, so its
  value is the one its declaration gives it; the constructor below takes that value as an
  argument. (A default-constructed \<open>VectorXd\<close> is the empty vector.)
\<close>

record OTG_joints =
  dim :: nat
  goal_reached :: bool
  result_value :: Result
  goal_position_eigen :: VectorXd
  "input" :: InputParameter
  "output" :: OutputParameter

definition setGoalPositionAndVelocity ::
  "OTG_joints \<Rightarrow> VectorXd \<Rightarrow> VectorXd \<Rightarrow> OTG_joints outcome" where
  "setGoalPositionAndVelocity s goal_position goal_velocity =
     (if length goal_position \<noteq> dim s \<or> length goal_velocity \<noteq> dim s
      then Thrown invalid_argument s
      else if isApprox goal_position (target_position (input s)) \<and>
              isApprox goal_velocity (target_velocity (input s))
      then Returned s
      else Returned (s\<lparr>goal_reached := False,
                       input := (input s)\<lparr>target_position := goal_position,
                                          target_velocity := goal_velocity\<rparr>\<rparr>))"

text \<open>
  Modelled from the spec: \<open>OTG_joints::setGoalPosition\<close> is declared in \<open>OTG_joints.h\<close>,
  which is not among the sources. The specification has it set ``the goal to the new
  position at rest''; the pose generator's \<open>setGoalPosition\<close>, which is among the sources,
  passes the position on with \<open>Vector3d::Zero()\<close> as goal velocity. So the goal velocity
  is the zero vector of the generator's dimension.
\<close>

definition setGoalPosition :: "OTG_joints \<Rightarrow> VectorXd \<Rightarrow> OTG_joints outcome" where
  "setGoalPosition s goal_position =
     setGoalPositionAndVelocity s goal_position (Zero (dim s))"

definition reInitialize :: "OTG_joints \<Rightarrow> VectorXd \<Rightarrow> OTG_joints outcome" where
  "reInitialize s initial_position =
     (if length initial_position \<noteq> dim s then Thrown invalid_argument s
      else
        let out = (output s)\<lparr>new_position := initial_position,
                             new_velocity := setZero (new_velocity (output s)),
                             new_acceleration := setZero (new_acceleration (output s))\<rparr>;
            s1 = s\<lparr>output := out, input := pass_to_input out (input s)\<rparr>
        in setGoalPosition s1 initial_position)"

text \<open>
  The constructor. \<open>input0\<close> and \<open>output0\<close> are the parameter objects as Ruckig builds
  them for \<open>_dim\<close> degrees of freedom (\<open>InputParameter(_dim)\<close>, \<open>OutputParameter(_dim)\<close>);
  \<open>loop_time\<close> only reaches the solver's constructor, and \<open>goal_position_eigen0\<close> is the
  value the declaration of \<open>_goal_position_eigen\<close> gives that member.

  Modelled from the spec: the member initialisers of \<open>OTG_joints\<close> are in \<open>OTG_joints.h\<close>,
  which is not among the sources. They are taken to be those the pose generator
  declares, \<open>_goal_reached = false\<close> and \<open>_result_value = Result::Finished\<close>; the
  specification has the goal not reached after construction.
\<close>

definition OTG_joints_new ::
  "InputParameter \<Rightarrow> OutputParameter \<Rightarrow> VectorXd \<Rightarrow> VectorXd \<Rightarrow> real
     \<Rightarrow> OTG_joints outcome" where
  "OTG_joints_new input0 output0 goal_position_eigen0 initial_position loop_time =
     reInitialize
       \<lparr>dim = length initial_position, goal_reached = False, result_value = Finished,
        goal_position_eigen = goal_position_eigen0,
        input = input0\<lparr>synchronization := Phase\<rparr>, output = output0\<rparr>
       initial_position"

definition setMaxVelocity :: "OTG_joints \<Rightarrow> VectorXd \<Rightarrow> OTG_joints outcome" where
  "setMaxVelocity s v =
     (if length v \<noteq> dim s then Thrown invalid_argument s
      else case minCoeff v of
             None \<Rightarrow> Aborted
           | Some m \<Rightarrow>
               if m \<le> 0 then Thrown invalid_argument s
               else Returned (s\<lparr>input := (input s)\<lparr>max_velocity := v\<rparr>\<rparr>))"

definition setMaxAcceleration :: "OTG_joints \<Rightarrow> VectorXd \<Rightarrow> OTG_joints outcome" where
  "setMaxAcceleration s v =
     (if length v \<noteq> dim s then Thrown invalid_argument s
      else case minCoeff v of
             None \<Rightarrow> Aborted
           | Some m \<Rightarrow>
               if m \<le> 0 then Thrown invalid_argument s
               else Returned (s\<lparr>input := (input s)\<lparr>max_acceleration := v\<rparr>\<rparr>))"

definition setMaxJerk :: "OTG_joints \<Rightarrow> VectorXd \<Rightarrow> OTG_joints outcome" where
  "setMaxJerk s v =
     (if length v \<noteq> dim s then Thrown invalid_argument s
      else case minCoeff v of
             None \<Rightarrow> Aborted
           | Some m \<Rightarrow>
               if m \<le> 0 then Thrown invalid_argument s
               else Returned (s\<lparr>input := (input s)\<lparr>max_jerk := map Finite v\<rparr>\<rparr>))"

definition disableJerkLimits :: "OTG_joints \<Rightarrow> OTG_joints" where
  "disableJerkLimits s =
     s\<lparr>input := (input s)\<lparr>max_jerk := map (\<lambda>_. Infinity) (max_jerk (input s)),
                          current_acceleration :=
                            setZero (current_acceleration (input s))\<rparr>\<rparr>"

definition update :: "solver \<Rightarrow> OTG_joints \<Rightarrow> OTG_joints outcome" where
  "update otg s =
     (let (r, out) = otg (input s) (output s);
          s1 = s\<lparr>result_value := r, output := out\<rparr>
      in if r = Finished then
           (if norm_v (new_velocity out) < 1 / 1000
            then Returned (s1\<lparr>goal_reached := True\<rparr>)
            else setGoalPosition s1 (goal_position_eigen s1))
         else if r = Working then
           Returned (s1\<lparr>input := pass_to_input out (input s1)\<rparr>)
         else Thrown runtime_error s1)"

definition isGoalReached :: "OTG_joints \<Rightarrow> bool" where
  "isGoalReached s = goal_reached s"

text \<open>
  The size invariant of the tracked goal: both target vectors have the generator's
  dimension. The constructor establishes it and every member function keeps it
  (lemmas \<open>sized_new\<close> to \<open>sized_update\<close> below).
\<close>

definition sized :: "OTG_joints \<Rightarrow> bool" where
  "sized s \<longleftrightarrow>
     length (target_position (input s)) = dim s \<and>
     length (target_velocity (input s)) = dim s"

text \<open>The state an outcome leaves the object in, if the program is still running.\<close>

fun state_of :: "'s outcome \<Rightarrow> 's option" where
  "state_of (Returned s) = Some s"
| "state_of (Thrown e s) = Some s"
| "state_of Aborted = None"


section \<open>The pose trajectory generator\<close>

text \<open>
  Of the pose generator the sources hold the class declaration with its inline member
  functions. The solver pointer is left out, as for the joint generator.
\<close>

record OTG_6dof_cartesian =
  goal_reached6 :: bool
  result_value6 :: Result
  reference_frame :: Matrix3d
  goal_orientation_in_base_frame :: Matrix3d
  goal_angular_velocity_in_base_frame :: VectorXd
  input6 :: InputParameter
  output6 :: OutputParameter

definition disableJerkLimits6 :: "OTG_6dof_cartesian \<Rightarrow> OTG_6dof_cartesian" where
  "disableJerkLimits6 s =
     s\<lparr>input6 := (input6 s)\<lparr>max_jerk := map (\<lambda>_. Infinity) (max_jerk (input6 s))\<rparr>\<rparr>"

definition getNextAngularVelocity :: "OTG_6dof_cartesian \<Rightarrow> VectorXd" where
  "getNextAngularVelocity s = mat_vec (reference_frame s) (tail3 (new_velocity (output6 s)))"

definition getNextAngularAcceleration :: "OTG_6dof_cartesian \<Rightarrow> VectorXd" where
  "getNextAngularAcceleration s =
     mat_vec (reference_frame s) (tail3 (new_acceleration (output6 s)))"

section \<open>Test points\<close>

text \<open>
  A one-joint generator in the middle of a trajectory towards the goal position 1, whose
  member \<open>_goal_position_eigen\<close> is the empty vector, a
  family of solvers that answer with a given result value and velocity, a generator
  without joints as the constructor builds it from an empty initial position, and a pose
  generator whose reference frame is the rotation by a quarter turn about the third axis.
\<close>

definition example_input :: InputParameter where
  "example_input =
     \<lparr>current_position = [1 / 2], current_velocity = [1 / 10], current_acceleration = [1 / 5],
      target_position = [1], target_velocity = [0],
      max_velocity = [1], max_acceleration = [1], max_jerk = [Finite 1],
      synchronization = Phase\<rparr>"

definition example_output :: OutputParameter where
  "example_output =
     \<lparr>new_position = [1 / 2], new_velocity = [1 / 10], new_acceleration = [1 / 5]\<rparr>"

definition example_joints :: OTG_joints where
  "example_joints =
     \<lparr>dim = 1, goal_reached = False, result_value = Working, goal_position_eigen = [],
      input = example_input, output = example_output\<rparr>"


definition empty_input :: InputParameter where
  "empty_input =
     \<lparr>current_position = [], current_velocity = [], current_acceleration = [],
      target_position = [], target_velocity = [],
      max_velocity = [], max_acceleration = [], max_jerk = [],
      synchronization = Time\<rparr>"

definition empty_output :: OutputParameter where
  "empty_output = \<lparr>new_position = [], new_velocity = [], new_acceleration = []\<rparr>"

definition empty_joints :: OTG_joints where
  "empty_joints =
     \<lparr>dim = 0, goal_reached = False, result_value = Finished, goal_position_eigen = [],
      input = empty_input\<lparr>synchronization := Phase\<rparr>, output = empty_output\<rparr>"

definition example_pose :: OTG_6dof_cartesian where
  "example_pose =
     \<lparr>goal_reached6 = False, result_value6 = Working,
      reference_frame = [[0, -1, 0], [1, 0, 0], [0, 0, 1]],
      goal_orientation_in_base_frame = [[1, 0, 0], [0, 1, 0], [0, 0, 1]],
      goal_angular_velocity_in_base_frame = [0, 0, 0],
      input6 =
        \<lparr>current_position = [0, 0, 0, 0, 0, 0], current_velocity = [0, 0, 0, 0, 0, 0],
         current_acceleration = [1, 0, 0, 0, 0, 0],
         target_position = [1, 0, 0, 0, 0, 0], target_velocity = [0, 0, 0, 0, 0, 0],
         max_velocity = [1, 1, 1, 1, 1, 1], max_acceleration = [1, 1, 1, 1, 1, 1],
         max_jerk = [Finite 1, Finite 1, Finite 1, Finite 1, Finite 1, Finite 1],
         synchronization = Phase\<rparr>,
      output6 =
        \<lparr>new_position = [0, 0, 0, 0, 0, 0], new_velocity = [1, 2, 3, 4, 5, 6],
         new_acceleration = [0, 0, 0, 1, 0, 0]\<rparr>\<rparr>"

section \<open>Facts about the vector operations\<close>

lemma squaredNorm_nonneg: "0 \<le> squaredNorm v"
  unfolding squaredNorm_def by (induction v) simp_all

lemma squaredNorm_Cons: "squaredNorm (x # xs) = x * x + squaredNorm xs"
  by (simp add: squaredNorm_def)

lemma squaredNorm_zero_iff: "squaredNorm v = 0 \<longleftrightarrow> v = replicate (length v) 0"
proof (induction v)
  case Nil
  then show ?case by (simp add: squaredNorm_def)
next
  case (Cons x xs)
  have nn: "0 \<le> squaredNorm xs" by (rule squaredNorm_nonneg)
  have sq: "0 \<le> x * x" by simp
  have "x * x + squaredNorm xs = 0 \<longleftrightarrow> x * x = 0 \<and> squaredNorm xs = 0"
    using nn sq by linarith
  with Cons show ?case by (simp add: squaredNorm_Cons)
qed

lemma norm_v_less_iff: "0 < e \<Longrightarrow> norm_v v < e \<longleftrightarrow> squaredNorm v < e * e"
proof -
  assume e: "0 < e"
  have "sqrt (squaredNorm v) < sqrt (e * e) \<longleftrightarrow> squaredNorm v < e * e"
    by (rule real_sqrt_less_iff)
  moreover have "sqrt (e * e) = e" using e by simp
  ultimately show ?thesis by (simp add: norm_v_def)
qed


lemma map2_minus_Zero: "length v = n \<Longrightarrow> map2 (-) (Zero n) v = map uminus v"
  unfolding Zero_def
proof (induction v arbitrary: n)
  case Nil
  then show ?case by simp
next
  case (Cons x xs)
  then obtain k where "n = Suc k" and "length xs = k" by (cases n) auto
  with Cons.IH [of k] show ?case by simp
qed

lemma squaredNorm_uminus: "squaredNorm (map uminus v) = squaredNorm v"
  unfolding squaredNorm_def by (induction v) simp_all

lemma squaredNorm_Zero: "squaredNorm (Zero n) = 0"
  unfolding squaredNorm_def Zero_def by (induction n) simp_all

lemma isApprox_Zero_iff:
  assumes "length v = n"
  shows "isApprox (Zero n) v \<longleftrightarrow> v = Zero n"
proof -
  have "isApprox (Zero n) v \<longleftrightarrow> squaredNorm v \<le> 0"
    using squaredNorm_nonneg [of v] assms
    by (simp add: isApprox_def map2_minus_Zero squaredNorm_uminus squaredNorm_Zero)
  also have "\<dots> \<longleftrightarrow> squaredNorm v = 0"
    using squaredNorm_nonneg [of v] by linarith
  also have "\<dots> \<longleftrightarrow> v = Zero n"
    using assms by (simp add: squaredNorm_zero_iff Zero_def)
  finally show ?thesis .
qed

lemma map2_minus_self: "map2 (-) v v = Zero (length v)"
  unfolding Zero_def by (induction v) simp_all

lemma isApprox_refl: "isApprox v v"
proof -
  have "0 \<le> dummy_precision * dummy_precision * squaredNorm v"
    using squaredNorm_nonneg [of v] by (simp add: dummy_precision_def)
  then show ?thesis
    by (simp add: isApprox_def map2_minus_self squaredNorm_Zero)
qed

lemma minCoeff_le_iff:
  assumes "minCoeff v = Some m"
  shows "m \<le> c \<longleftrightarrow> (\<exists>x\<in>set v. x \<le> c)"
proof (cases v)
  case Nil
  with assms show ?thesis by simp
next
  case (Cons x xs)
  with assms have "m = fold min xs x" by simp
  then have "m = Min (set v)" using Cons Min.set_eq_fold [of x xs] by simp
  moreover have "finite (set v)" and "set v \<noteq> {}" using Cons by simp_all
  ultimately show ?thesis using Min_le_iff [of "set v" c] by simp
qed

lemma length_Zero: "length (Zero n) = n"
  by (simp add: Zero_def)

lemma setZero_eq_Zero: "setZero v = Zero (length v)"
  by (simp add: setZero_def Zero_def map_replicate_const)

lemma isApprox_1_1: "isApprox [1] [1]"
  by (simp add: isApprox_def squaredNorm_def dummy_precision_def)

lemma isApprox_0_0: "isApprox [0] [0]"
  by (simp add: isApprox_def squaredNorm_def dummy_precision_def)

lemma not_isApprox_2_1: "\<not> isApprox [2] [1]"
  by (simp add: isApprox_def squaredNorm_def dummy_precision_def)

lemma not_isApprox_3_1: "\<not> isApprox [3] [1]"
  by (simp add: isApprox_def squaredNorm_def dummy_precision_def)

lemma length6E:
  assumes "length (v :: 'a list) = 6"
  obtains a b c d e f where "v = [a, b, c, d, e, f]"
proof -
  from assms obtain a v1 where "v = a # v1" "length v1 = 5" by (cases v) auto
  moreover then obtain b v2 where "v1 = b # v2" "length v2 = 4" by (cases v1) auto
  moreover then obtain c v3 where "v2 = c # v3" "length v3 = 3" by (cases v2) auto
  moreover then obtain d v4 where "v3 = d # v4" "length v4 = 2" by (cases v3) auto
  moreover then obtain e v5 where "v4 = e # v5" "length v5 = 1" by (cases v4) auto
  moreover then obtain f where "v5 = [f]" by (cases v5) auto
  ultimately show ?thesis using that by simp
qed

lemma mat_vec_tail3:
  assumes "length w = 6"
  shows "mat_vec [[r11, r12, r13], [r21, r22, r23], [r31, r32, r33]] (tail3 w) =
           [r11 * w ! 3 + r12 * w ! 4 + r13 * w ! 5,
            r21 * w ! 3 + r22 * w ! 4 + r23 * w ! 5,
            r31 * w ! 3 + r32 * w ! 4 + r33 * w ! 5]"
proof -
  from assms obtain a b c d e f where "w = [a, b, c, d, e, f]" by (rule length6E)
  then show ?thesis by (simp add: mat_vec_def tail3_def)
qed

section \<open>The size invariant\<close>

text \<open>
  The constructor establishes the size invariant, provided Ruckig has sized the target
  vectors of the fresh input object to the number of joints, and every member function
  keeps it, whatever the solver answers.
\<close>

lemma sized_setGoalPositionAndVelocity:
  "sized s \<Longrightarrow> state_of (setGoalPositionAndVelocity s g w) = Some s' \<Longrightarrow> sized s'"
  by (auto simp: setGoalPositionAndVelocity_def sized_def split: if_splits)

lemma sized_setGoalPosition:
  "sized s \<Longrightarrow> state_of (setGoalPosition s g) = Some s' \<Longrightarrow> sized s'"
  unfolding setGoalPosition_def by (rule sized_setGoalPositionAndVelocity)

lemma sized_reInitialize:
  assumes "sized s" and "state_of (reInitialize s p) = Some s'"
  shows "sized s'"
proof (cases "length p = dim s")
  case False
  with assms show ?thesis by (simp add: reInitialize_def)
next
  case True
  let ?out = "(output s)\<lparr>new_position := p,
                 new_velocity := setZero (new_velocity (output s)),
                 new_acceleration := setZero (new_acceleration (output s))\<rparr>"
  let ?s1 = "s\<lparr>output := ?out, input := pass_to_input ?out (input s)\<rparr>"
  have "sized ?s1" using assms(1) by (simp add: sized_def pass_to_input_def)
  moreover have "state_of (setGoalPosition ?s1 p) = Some s'"
    using assms(2) True by (simp add: reInitialize_def Let_def)
  ultimately show ?thesis by (rule sized_setGoalPosition)
qed

lemma sized_new:
  assumes "length (target_position input0) = length p"
    and "length (target_velocity input0) = length p"
    and "state_of (OTG_joints_new input0 output0 g0 p loop_time) = Some s'"
  shows "sized s'"
proof -
  let ?s = "\<lparr>dim = length p, goal_reached = False, result_value = Finished,
             goal_position_eigen = g0,
             input = input0\<lparr>synchronization := Phase\<rparr>, output = output0\<rparr>"
  have "sized ?s" using assms(1,2) by (simp add: sized_def)
  moreover have "state_of (reInitialize ?s p) = Some s'"
    using assms(3) by (simp add: OTG_joints_new_def)
  ultimately show ?thesis by (rule sized_reInitialize)
qed

lemma sized_setMaxVelocity:
  "sized s \<Longrightarrow> state_of (setMaxVelocity s v) = Some s' \<Longrightarrow> sized s'"
  by (auto simp: setMaxVelocity_def sized_def split: if_splits option.splits)

lemma sized_setMaxAcceleration:
  "sized s \<Longrightarrow> state_of (setMaxAcceleration s v) = Some s' \<Longrightarrow> sized s'"
  by (auto simp: setMaxAcceleration_def sized_def split: if_splits option.splits)

lemma sized_setMaxJerk:
  "sized s \<Longrightarrow> state_of (setMaxJerk s v) = Some s' \<Longrightarrow> sized s'"
  by (auto simp: setMaxJerk_def sized_def split: if_splits option.splits)

lemma sized_disableJerkLimits: "sized s \<Longrightarrow> sized (disableJerkLimits s)"
  by (simp add: disableJerkLimits_def sized_def)

lemma update_unfold:
  assumes "otg (input s) (output s) = (r, out)"
  shows "update otg s =
           (if r = Finished then
              (if norm_v (new_velocity out) < 1 / 1000
               then Returned (s\<lparr>result_value := r, output := out, goal_reached := True\<rparr>)
               else setGoalPosition (s\<lparr>result_value := r, output := out\<rparr>)
                      (goal_position_eigen s))
            else if r = Working then
              Returned (s\<lparr>result_value := r, output := out,
                          input := pass_to_input out (input s)\<rparr>)
            else Thrown runtime_error (s\<lparr>result_value := r, output := out\<rparr>))"
  using assms by (simp add: update_def Let_def)

lemma sized_update:
  assumes "sized s" and "state_of (update otg s) = Some s'"
  shows "sized s'"
proof -
  obtain r out where ro: "otg (input s) (output s) = (r, out)" by (cases "otg (input s) (output s)")
  let ?s1 = "s\<lparr>result_value := r, output := out\<rparr>"
  have s1: "sized ?s1" using assms(1) by (simp add: sized_def)
  note u = update_unfold [of otg s r out, OF ro]
  show ?thesis
  proof (cases r)
    case Working
    with assms u show ?thesis by (auto simp: sized_def pass_to_input_def)
  next
    case Error
    with assms u show ?thesis by (auto simp: sized_def)
  next
    case Finished
    show ?thesis
    proof (cases "norm_v (new_velocity out) < 1 / 1000")
      case True
      with Finished assms u show ?thesis by (auto simp: sized_def)
    next
      case False
      with Finished assms(2) u
      have "state_of (setGoalPosition ?s1 (goal_position_eigen s)) = Some s'"
        by simp
      with s1 show ?thesis by (rule sized_setGoalPosition)
    qed
  qed
qed

section \<open>Construction\<close>

text \<open>
  C7. For every initial position, with parameter objects sized by Ruckig to its length,
  the constructor returns a generator whose dimension is the length of the initial
  position, whose goal-reached flag is false, whose output sample is the initial position
  with zero velocity and zero acceleration, and whose synchronization is \<open>Phase\<close>.
\<close>

theorem construction_initial_state:
  assumes "length (new_velocity output0) = length p"
    and "length (new_acceleration output0) = length p"
  shows "\<exists>s. OTG_joints_new input0 output0 g0 p loop_time = Returned s
           \<and> dim s = length p
           \<and> \<not> isGoalReached s
           \<and> new_position (output s) = p
           \<and> new_velocity (output s) = Zero (dim s)
           \<and> new_acceleration (output s) = Zero (dim s)
           \<and> synchronization (input s) = Phase"
  using assms
  by (simp add: OTG_joints_new_def reInitialize_def setGoalPosition_def
      setGoalPositionAndVelocity_def length_Zero Let_def isGoalReached_def setZero_eq_Zero
      pass_to_input_def)

text \<open>
  The theorem at the initial position 3 of a one-joint generator, with the state the
  constructor builds.
\<close>

theorem construction_initial_state_witness:
  "OTG_joints_new example_input example_output [] [3] (1 / 1000) =
     Returned \<lparr>dim = 1, goal_reached = False, result_value = Finished,
       goal_position_eigen = [],
       input = example_input\<lparr>current_position := [3], current_velocity := [0],
                 current_acceleration := [0], target_position := [3]\<rparr>,
       output = \<lparr>new_position = [3], new_velocity = [0], new_acceleration = [0]\<rparr>\<rparr>"
proof -
  have l: "length (new_velocity example_output) = length [3::real]"
    "length (new_acceleration example_output) = length [3::real]"
    by (simp_all add: example_output_def)
  from construction_initial_state [OF l, where ?input0.0 = example_input and ?g0.0 = "[]"
      and loop_time = "1 / 1000"]
  obtain s where "OTG_joints_new example_input example_output [] [3] (1 / 1000) = Returned s"
    by blast
  moreover have "OTG_joints_new example_input example_output [] [3] (1 / 1000) =
     Returned \<lparr>dim = 1, goal_reached = False, result_value = Finished,
       goal_position_eigen = [],
       input = example_input\<lparr>current_position := [3], current_velocity := [0],
                 current_acceleration := [0], target_position := [3]\<rparr>,
       output = \<lparr>new_position = [3], new_velocity = [0], new_acceleration = [0]\<rparr>\<rparr>"
    by (simp add: OTG_joints_new_def reInitialize_def setGoalPosition_def
      setGoalPositionAndVelocity_def Let_def setZero_def Zero_def
      pass_to_input_def example_input_def example_output_def isApprox_def squaredNorm_def
      dummy_precision_def)
  ultimately show ?thesis by simp
qed

section \<open>Kinematic limits\<close>

lemma setMax_rejects:
  assumes "length v \<noteq> dim s \<or> (\<exists>x\<in>set v. x \<le> 0)"
  shows "setMaxVelocity s v = Thrown invalid_argument s"
    and "setMaxAcceleration s v = Thrown invalid_argument s"
    and "setMaxJerk s v = Thrown invalid_argument s"
proof -
  have "length v \<noteq> dim s \<or> (\<exists>m. minCoeff v = Some m \<and> m \<le> 0)"
  proof (cases "length v = dim s")
    case False
    then show ?thesis by simp
  next
    case True
    with assms obtain x where "x \<in> set v" and "x \<le> 0" by blast
    then have "v \<noteq> []" by auto
    then obtain m where m: "minCoeff v = Some m" by (cases v) simp_all
    with \<open>x \<in> set v\<close> \<open>x \<le> 0\<close> have "m \<le> 0" by (auto simp: minCoeff_le_iff)
    with m show ?thesis by simp
  qed
  then show "setMaxVelocity s v = Thrown invalid_argument s"
    and "setMaxAcceleration s v = Thrown invalid_argument s"
    and "setMaxJerk s v = Thrown invalid_argument s"
    by (auto simp: setMaxVelocity_def setMaxAcceleration_def setMaxJerk_def)
qed

lemma setMax_accepts:
  assumes "length v = dim s" and "0 < dim s" and "\<forall>x\<in>set v. 0 < x"
  shows "setMaxVelocity s v = Returned (s\<lparr>input := (input s)\<lparr>max_velocity := v\<rparr>\<rparr>)"
    and "setMaxAcceleration s v = Returned (s\<lparr>input := (input s)\<lparr>max_acceleration := v\<rparr>\<rparr>)"
    and "setMaxJerk s v = Returned (s\<lparr>input := (input s)\<lparr>max_jerk := map Finite v\<rparr>\<rparr>)"
proof -
  from assms(1,2) have "v \<noteq> []" by auto
  then obtain m where m: "minCoeff v = Some m" by (cases v) simp_all
  have "\<not> m \<le> 0"
    using assms(3) minCoeff_le_iff [OF m, of 0] by (auto simp: not_le)
  with m assms(1)
  show "setMaxVelocity s v = Returned (s\<lparr>input := (input s)\<lparr>max_velocity := v\<rparr>\<rparr>)"
    and "setMaxAcceleration s v = Returned (s\<lparr>input := (input s)\<lparr>max_acceleration := v\<rparr>\<rparr>)"
    and "setMaxJerk s v = Returned (s\<lparr>input := (input s)\<lparr>max_jerk := map Finite v\<rparr>\<rparr>)"
    by (simp_all add: setMaxVelocity_def setMaxAcceleration_def setMaxJerk_def)
qed

text \<open>
  C3, as amended. Each of \<open>setMaxVelocity\<close>, \<open>setMaxAcceleration\<close> and \<open>setMaxJerk\<close>
  throws \<open>invalid_argument\<close>, leaving the generator and so every limit as it was, if the
  size of the vector differs from the dimension or a component is zero or negative. If
  the vector has the generator's dimension, the dimension is at least 1, and every
  component is positive, the limit is set to the vector.
\<close>

theorem setMax_validated:
  "(length v \<noteq> dim s \<or> (\<exists>x\<in>set v. x \<le> 0) \<longrightarrow>
      setMaxVelocity s v = Thrown invalid_argument s
    \<and> setMaxAcceleration s v = Thrown invalid_argument s
    \<and> setMaxJerk s v = Thrown invalid_argument s)
 \<and> (length v = dim s \<and> 0 < dim s \<and> (\<forall>x\<in>set v. 0 < x) \<longrightarrow>
      setMaxVelocity s v = Returned (s\<lparr>input := (input s)\<lparr>max_velocity := v\<rparr>\<rparr>)
    \<and> setMaxAcceleration s v = Returned (s\<lparr>input := (input s)\<lparr>max_acceleration := v\<rparr>\<rparr>)
    \<and> setMaxJerk s v = Returned (s\<lparr>input := (input s)\<lparr>max_jerk := map Finite v\<rparr>\<rparr>))"
  using setMax_rejects [of v s] setMax_accepts [of v s] by blast

text \<open>
  The theorem at the test generator: a negative component, a zero component and a wrong
  size are rejected, the vector with the single component 2 is stored.
\<close>

theorem setMax_validated_witness:
  "setMaxVelocity example_joints [-1] = Thrown invalid_argument example_joints
   \<and> setMaxAcceleration example_joints [0] = Thrown invalid_argument example_joints
   \<and> setMaxJerk example_joints [1, 2] = Thrown invalid_argument example_joints
   \<and> setMaxVelocity example_joints [2] =
       Returned (example_joints\<lparr>input := example_input\<lparr>max_velocity := [2]\<rparr>\<rparr>)
   \<and> setMaxAcceleration example_joints [2] =
       Returned (example_joints\<lparr>input := example_input\<lparr>max_acceleration := [2]\<rparr>\<rparr>)
   \<and> setMaxJerk example_joints [2] =
       Returned (example_joints\<lparr>input := example_input\<lparr>max_jerk := [Finite 2]\<rparr>\<rparr>)"
  using setMax_validated [of "[-1]" example_joints] setMax_validated [of "[0]" example_joints]
    setMax_validated [of "[1, 2]" example_joints] setMax_validated [of "[2]" example_joints]
  by (simp add: example_joints_def)

text \<open>
  C3 as stated fails for the generator without joints: the empty vector has the
  generator's size and no component that is not positive, but the validation asks for
  its smallest coefficient, and no limit is set.
\<close>

theorem setMax_empty_counterexample:
  "OTG_joints_new empty_input empty_output [] [] (1 / 1000) = Returned empty_joints
   \<and> dim empty_joints = 0
   \<and> setMaxVelocity empty_joints [] = Aborted
   \<and> setMaxAcceleration empty_joints [] = Aborted
   \<and> setMaxJerk empty_joints [] = Aborted"
  by (simp add: OTG_joints_new_def reInitialize_def setGoalPosition_def
      setGoalPositionAndVelocity_def setMaxVelocity_def setMaxAcceleration_def setMaxJerk_def
      empty_joints_def empty_input_def empty_output_def pass_to_input_def setZero_def Zero_def
      isApprox_def squaredNorm_def)

text \<open>
  The joint generator's \<open>disableJerkLimits\<close> makes every jerk limit infinite and every
  component of the current acceleration zero.
\<close>

lemma disableJerkLimits_joints:
  "max_jerk (input (disableJerkLimits s)) = replicate (length (max_jerk (input s))) Infinity
   \<and> current_acceleration (input (disableJerkLimits s)) =
       Zero (length (current_acceleration (input s)))"
  by (simp add: disableJerkLimits_def setZero_eq_Zero map_replicate_const)

text \<open>
  The pose generator's \<open>disableJerkLimits\<close> makes every jerk limit infinite and leaves
  the current acceleration as it is.
\<close>

lemma disableJerkLimits6_pose:
  "max_jerk (input6 (disableJerkLimits6 s)) = replicate (length (max_jerk (input6 s))) Infinity
   \<and> current_acceleration (input6 (disableJerkLimits6 s)) = current_acceleration (input6 s)"
  by (simp add: disableJerkLimits6_def map_replicate_const)

text \<open>
  C6. The pose generator's \<open>disableJerkLimits\<close> makes every jerk limit infinite, but
  does not touch the current acceleration: on the test pose generator, whose
  current acceleration is not zero, it is the same afterwards.
\<close>

theorem disableJerkLimits6_keeps_acceleration:
  "max_jerk (input6 (disableJerkLimits6 example_pose)) =
     [Infinity, Infinity, Infinity, Infinity, Infinity, Infinity]
   \<and> current_acceleration (input6 example_pose) = [1, 0, 0, 0, 0, 0]
   \<and> current_acceleration (input6 (disableJerkLimits6 example_pose)) = [1, 0, 0, 0, 0, 0]
   \<and> current_acceleration (input6 (disableJerkLimits6 example_pose)) \<noteq> [0, 0, 0, 0, 0, 0]"
  by (simp add: disableJerkLimits6_def example_pose_def)

section \<open>Goal changes\<close>

text \<open>
  C2. For goal vectors of the generator's dimension, \<open>setGoalPositionAndVelocity\<close>
  returns with the generator untouched (so an already-true goal-reached flag stays true)
  when the goal position and the goal velocity are both approximately equal to the
  tracked goal; otherwise it clears the goal-reached flag and replaces the tracked goal
  position and velocity by the arguments.
\<close>

theorem setGoal_noop_or_replace:
  assumes "length goal_position = dim s" and "length goal_velocity = dim s"
  shows "(isApprox goal_position (target_position (input s)) \<and>
          isApprox goal_velocity (target_velocity (input s)) \<longrightarrow>
            setGoalPositionAndVelocity s goal_position goal_velocity = Returned s)
       \<and> (\<not> (isApprox goal_position (target_position (input s)) \<and>
              isApprox goal_velocity (target_velocity (input s))) \<longrightarrow>
            setGoalPositionAndVelocity s goal_position goal_velocity =
              Returned (s\<lparr>goal_reached := False,
                          input := (input s)\<lparr>target_position := goal_position,
                                             target_velocity := goal_velocity\<rparr>\<rparr>))"
  using assms by (simp add: setGoalPositionAndVelocity_def)

text \<open>
  The theorem at the test generator with the flag set: the tracked goal again leaves the
  flag set, the goal position 2 clears it.
\<close>

theorem setGoal_noop_or_replace_witness:
  "setGoalPositionAndVelocity (example_joints\<lparr>goal_reached := True\<rparr>) [1] [0] =
     Returned (example_joints\<lparr>goal_reached := True\<rparr>)
   \<and> setGoalPositionAndVelocity (example_joints\<lparr>goal_reached := True\<rparr>) [2] [0] =
     Returned (example_joints\<lparr>goal_reached := False,
                 input := example_input\<lparr>target_position := [2], target_velocity := [0]\<rparr>\<rparr>)"
  using setGoal_noop_or_replace [of "[1]" "example_joints\<lparr>goal_reached := True\<rparr>" "[0]"]
    setGoal_noop_or_replace [of "[2]" "example_joints\<lparr>goal_reached := True\<rparr>" "[0]"]
    isApprox_1_1 isApprox_0_0 not_isApprox_2_1
  by (simp add: example_joints_def example_input_def)

section \<open>Re-initialisation\<close>

lemma reInitialize_unfold:
  assumes "length p = dim s"
  shows "reInitialize s p =
     setGoalPositionAndVelocity
       (s\<lparr>output := (output s)\<lparr>new_position := p,
                      new_velocity := Zero (length (new_velocity (output s))),
                      new_acceleration := Zero (length (new_acceleration (output s)))\<rparr>,
          input := (input s)\<lparr>current_position := p,
                      current_velocity := Zero (length (new_velocity (output s))),
                      current_acceleration := Zero (length (new_acceleration (output s)))\<rparr>\<rparr>)
       p (Zero (dim s))"
  using assms
  by (simp add: reInitialize_def Let_def setGoalPosition_def pass_to_input_def setZero_eq_Zero)

text \<open>
  C5, as amended. \<open>reInitialize\<close> throws \<open>invalid_argument\<close> on a size mismatch.
  Otherwise, in a generator that satisfies the size invariant, it returns with the
  output position set to the new position, the output velocity and acceleration and the
  solver's current velocity and acceleration zero, and the tracked goal velocity zero.
  If the new position is approximately equal to the tracked goal position and the
  tracked goal velocity was zero, the tracked goal position and the goal-reached flag
  are left as they were; otherwise the tracked goal position is the new position and the
  flag is false. In both cases the new position is approximately equal to the tracked
  goal position, and a flag that was false is false afterwards.
\<close>

theorem reInitialize_effect:
  "(length p \<noteq> dim s \<longrightarrow> reInitialize s p = Thrown invalid_argument s)
 \<and> (length p = dim s \<and> sized s \<longrightarrow>
      (\<exists>s'. reInitialize s p = Returned s'
         \<and> new_position (output s') = p
         \<and> new_velocity (output s') = Zero (length (new_velocity (output s)))
         \<and> new_acceleration (output s') = Zero (length (new_acceleration (output s)))
         \<and> current_position (input s') = p
         \<and> current_velocity (input s') = Zero (length (new_velocity (output s)))
         \<and> current_acceleration (input s') = Zero (length (new_acceleration (output s)))
         \<and> target_velocity (input s') = Zero (dim s)
         \<and> (if isApprox p (target_position (input s)) \<and>
                target_velocity (input s) = Zero (dim s)
             then target_position (input s') = target_position (input s)
                  \<and> goal_reached s' = goal_reached s
             else target_position (input s') = p \<and> \<not> goal_reached s')
         \<and> isApprox p (target_position (input s'))
         \<and> (\<not> goal_reached s \<longrightarrow> \<not> goal_reached s')))"
proof (intro conjI impI)
  assume "length p \<noteq> dim s"
  then show "reInitialize s p = Thrown invalid_argument s"
    by (simp add: reInitialize_def)
next
  assume a: "length p = dim s \<and> sized s"
  then have z: "isApprox (Zero (dim s)) (target_velocity (input s)) \<longleftrightarrow>
                  target_velocity (input s) = Zero (dim s)"
    by (simp add: isApprox_Zero_iff sized_def)
  from a have "length p = dim s" by simp
  note u = reInitialize_unfold [OF this]
  show "\<exists>s'. reInitialize s p = Returned s'
         \<and> new_position (output s') = p
         \<and> new_velocity (output s') = Zero (length (new_velocity (output s)))
         \<and> new_acceleration (output s') = Zero (length (new_acceleration (output s)))
         \<and> current_position (input s') = p
         \<and> current_velocity (input s') = Zero (length (new_velocity (output s)))
         \<and> current_acceleration (input s') = Zero (length (new_acceleration (output s)))
         \<and> target_velocity (input s') = Zero (dim s)
         \<and> (if isApprox p (target_position (input s)) \<and>
                target_velocity (input s) = Zero (dim s)
             then target_position (input s') = target_position (input s)
                  \<and> goal_reached s' = goal_reached s
             else target_position (input s') = p \<and> \<not> goal_reached s')
         \<and> isApprox p (target_position (input s'))
         \<and> (\<not> goal_reached s \<longrightarrow> \<not> goal_reached s')"
    using a z isApprox_refl [of p] unfolding u
    by (simp add: setGoalPositionAndVelocity_def length_Zero)
qed

text \<open>
  The theorem at the test generator: the empty vector is rejected, the position 3
  replaces the goal in flight.
\<close>

theorem reInitialize_effect_witness:
  "reInitialize example_joints [] = Thrown invalid_argument example_joints
   \<and> length [3 :: real] = dim example_joints \<and> sized example_joints
   \<and> (\<exists>s'. reInitialize example_joints [3] = Returned s'
         \<and> new_position (output s') = [3]
         \<and> new_velocity (output s') = [0]
         \<and> new_acceleration (output s') = [0]
         \<and> current_position (input s') = [3]
         \<and> current_velocity (input s') = [0]
         \<and> current_acceleration (input s') = [0]
         \<and> target_velocity (input s') = [0]
         \<and> target_position (input s') = [3]
         \<and> \<not> goal_reached s')"
proof -
  have sz: "sized example_joints"
    by (simp add: sized_def example_joints_def example_input_def)
  have n: "\<not> isApprox [3] (target_position (input example_joints))"
    using not_isApprox_3_1 by (simp add: example_joints_def example_input_def)
  from reInitialize_effect [of "[]" example_joints]
  have a: "reInitialize example_joints [] = Thrown invalid_argument example_joints"
    by (simp add: example_joints_def)
  from reInitialize_effect [of "[3]" example_joints] sz n
  have b: "\<exists>s'. reInitialize example_joints [3] = Returned s'
         \<and> new_position (output s') = [3]
         \<and> new_velocity (output s') = [0]
         \<and> new_acceleration (output s') = [0]
         \<and> current_position (input s') = [3]
         \<and> current_velocity (input s') = [0]
         \<and> current_acceleration (input s') = [0]
         \<and> target_velocity (input s') = [0]
         \<and> target_position (input s') = [3]
         \<and> \<not> goal_reached s'"
    by (auto simp add: example_joints_def example_output_def example_input_def Zero_def)
  from a b sz show ?thesis by (simp add: example_joints_def)
qed

text \<open>
  C5 as stated fails on the test generator, which is in the middle of a trajectory
  towards the goal position 1 at rest: re-initialised at 1 + 1e-13, it keeps the tracked
  goal position 1, which is not the new position.
\<close>

theorem reInitialize_counterexample:
  "length [1 + 1 / 10 ^ 13 :: real] = dim example_joints
   \<and> \<not> goal_reached example_joints
   \<and> reInitialize example_joints [1 + 1 / 10 ^ 13] =
       Returned (example_joints
         \<lparr>output := \<lparr>new_position = [1 + 1 / 10 ^ 13], new_velocity = [0],
                      new_acceleration = [0]\<rparr>,
          input := example_input\<lparr>current_position := [1 + 1 / 10 ^ 13],
                      current_velocity := [0], current_acceleration := [0]\<rparr>\<rparr>)
   \<and> target_position (input (example_joints
         \<lparr>output := \<lparr>new_position = [1 + 1 / 10 ^ 13], new_velocity = [0],
                      new_acceleration = [0]\<rparr>,
          input := example_input\<lparr>current_position := [1 + 1 / 10 ^ 13],
                      current_velocity := [0], current_acceleration := [0]\<rparr>\<rparr>)) = [1]
   \<and> [1] \<noteq> [1 + 1 / 10 ^ 13 :: real]"
  by (simp add: reInitialize_def setGoalPosition_def setGoalPositionAndVelocity_def Let_def
      setZero_def Zero_def pass_to_input_def example_joints_def example_input_def
      example_output_def isApprox_def squaredNorm_def dummy_precision_def)

section \<open>The member handed to \<open>setGoalPosition\<close>\<close>

text \<open>
  No member function changes \<open>_goal_position_eigen\<close>: in whatever state a call
  leaves the generator, the member is what it was before.
\<close>

lemma member_kept_setGoalPositionAndVelocity:
  "state_of (setGoalPositionAndVelocity s g w) = Some s' \<Longrightarrow>
     goal_position_eigen s' = goal_position_eigen s"
  by (auto simp: setGoalPositionAndVelocity_def split: if_splits)

lemma member_kept_setGoalPosition:
  "state_of (setGoalPosition s g) = Some s' \<Longrightarrow> goal_position_eigen s' = goal_position_eigen s"
  unfolding setGoalPosition_def by (rule member_kept_setGoalPositionAndVelocity)

lemma member_kept_reInitialize:
  assumes "state_of (reInitialize s p) = Some s'"
  shows "goal_position_eigen s' = goal_position_eigen s"
proof (cases "length p = dim s")
  case False
  with assms show ?thesis by (simp add: reInitialize_def)
next
  case True
  with assms member_kept_setGoalPosition [of _ p s'] show ?thesis
    by (simp add: reInitialize_def Let_def)
qed

lemma member_kept_setMax:
  "state_of (setMaxVelocity s v) = Some s' \<Longrightarrow> goal_position_eigen s' = goal_position_eigen s"
  "state_of (setMaxAcceleration s v) = Some s' \<Longrightarrow> goal_position_eigen s' = goal_position_eigen s"
  "state_of (setMaxJerk s v) = Some s' \<Longrightarrow> goal_position_eigen s' = goal_position_eigen s"
  by (auto simp: setMaxVelocity_def setMaxAcceleration_def setMaxJerk_def
      split: if_splits option.splits)

lemma member_kept_disableJerkLimits:
  "goal_position_eigen (disableJerkLimits s) = goal_position_eigen s"
  by (simp add: disableJerkLimits_def)

lemma member_kept_update:
  assumes "state_of (update otg s) = Some s'"
  shows "goal_position_eigen s' = goal_position_eigen s"
proof -
  obtain r out where ro: "otg (input s) (output s) = (r, out)"
    by (cases "otg (input s) (output s)")
  note u = update_unfold [of otg s r out, OF ro]
  show ?thesis
  proof (cases "r = Finished \<and> \<not> norm_v (new_velocity out) < 1 / 1000")
    case True
    with u assms
    have "state_of (setGoalPosition (s\<lparr>result_value := r, output := out\<rparr>)
            (goal_position_eigen s)) = Some s'" by simp
    from member_kept_setGoalPosition [OF this] show ?thesis by simp
  next
    case False
    with u assms show ?thesis by (cases r) (auto split: if_splits)
  qed
qed

text \<open>
  The test generator is the state of a generator that is constructed at the position 0
  with an empty \<open>_goal_position_eigen\<close>, is given the goal position 1, and has run one
  cycle in which the solver is still working.
\<close>

lemma example_joints_reachable:
  "OTG_joints_new example_input example_output [] [0] (1 / 1000) =
     Returned \<lparr>dim = 1, goal_reached = False, result_value = Finished,
       goal_position_eigen = [],
       input = example_input\<lparr>current_position := [0], current_velocity := [0],
                 current_acceleration := [0], target_position := [0]\<rparr>,
       output = \<lparr>new_position = [0], new_velocity = [0], new_acceleration = [0]\<rparr>\<rparr>
   \<and> setGoalPosition
       \<lparr>dim = 1, goal_reached = False, result_value = Finished,
        goal_position_eigen = [],
        input = example_input\<lparr>current_position := [0], current_velocity := [0],
                  current_acceleration := [0], target_position := [0]\<rparr>,
        output = \<lparr>new_position = [0], new_velocity = [0], new_acceleration = [0]\<rparr>\<rparr> [1] =
     Returned \<lparr>dim = 1, goal_reached = False, result_value = Finished,
       goal_position_eigen = [],
       input = example_input\<lparr>current_position := [0], current_velocity := [0],
                 current_acceleration := [0]\<rparr>,
       output = \<lparr>new_position = [0], new_velocity = [0], new_acceleration = [0]\<rparr>\<rparr>
   \<and> update (\<lambda>inp out. (Working, example_output))
       \<lparr>dim = 1, goal_reached = False, result_value = Finished,
        goal_position_eigen = [],
        input = example_input\<lparr>current_position := [0], current_velocity := [0],
                  current_acceleration := [0]\<rparr>,
        output = \<lparr>new_position = [0], new_velocity = [0], new_acceleration = [0]\<rparr>\<rparr> =
     Returned example_joints"
  by (simp add: OTG_joints_new_def reInitialize_def setGoalPosition_def
      setGoalPositionAndVelocity_def update_def Let_def setZero_def Zero_def pass_to_input_def
      example_joints_def example_input_def example_output_def isApprox_def squaredNorm_def
      dummy_precision_def)

section \<open>One cycle of the generator\<close>

















section \<open>Rejected arguments\<close>

lemma OTG_joints_new_Returned:
  "\<exists>s. OTG_joints_new input0 output0 g0 p loop_time = Returned s"
  by (simp add: OTG_joints_new_def reInitialize_def setGoalPosition_def
      setGoalPositionAndVelocity_def length_Zero Let_def)

text \<open>
  C8. Whenever a setter of the joint generator or \<open>reInitialize\<close> throws
  \<open>invalid_argument\<close>, the generator is in the state it had before the call; the
  constructor never throws it.
\<close>

theorem invalid_argument_leaves_state:
  "(setMaxVelocity s v = Thrown invalid_argument s' \<longrightarrow> s' = s)
 \<and> (setMaxAcceleration s v = Thrown invalid_argument s' \<longrightarrow> s' = s)
 \<and> (setMaxJerk s v = Thrown invalid_argument s' \<longrightarrow> s' = s)
 \<and> (setGoalPositionAndVelocity s g w = Thrown invalid_argument s' \<longrightarrow> s' = s)
 \<and> (setGoalPosition s g = Thrown invalid_argument s' \<longrightarrow> s' = s)
 \<and> (reInitialize s p = Thrown invalid_argument s' \<longrightarrow> s' = s)
 \<and> OTG_joints_new input0 output0 g0 p loop_time \<noteq> Thrown invalid_argument s'"
proof -
  have a: "setMaxVelocity s v = Thrown invalid_argument s' \<longrightarrow> s' = s"
    by (auto simp: setMaxVelocity_def split: if_splits option.splits)
  have b: "setMaxAcceleration s v = Thrown invalid_argument s' \<longrightarrow> s' = s"
    by (auto simp: setMaxAcceleration_def split: if_splits option.splits)
  have c: "setMaxJerk s v = Thrown invalid_argument s' \<longrightarrow> s' = s"
    by (auto simp: setMaxJerk_def split: if_splits option.splits)
  have d: "setGoalPositionAndVelocity s g w = Thrown invalid_argument s' \<longrightarrow> s' = s" for g w
    by (auto simp: setGoalPositionAndVelocity_def split: if_splits)
  have e: "setGoalPosition s g = Thrown invalid_argument s' \<longrightarrow> s' = s"
    using d by (simp add: setGoalPosition_def)
  have f: "reInitialize s p = Thrown invalid_argument s' \<longrightarrow> s' = s"
    by (auto simp: reInitialize_def setGoalPosition_def setGoalPositionAndVelocity_def
        length_Zero Let_def split: if_splits)
  have g: "OTG_joints_new input0 output0 g0 p loop_time \<noteq> Thrown invalid_argument s'"
    using OTG_joints_new_Returned [of input0 output0 g0 p loop_time] by auto
  from a b c d e f g show ?thesis by blast
qed

text \<open>
  The theorem at the test generator, with one rejected call of each function.
\<close>

theorem invalid_argument_leaves_state_witness:
  "setMaxVelocity example_joints [1, 1] = Thrown invalid_argument example_joints
 \<and> setMaxAcceleration example_joints [-1] = Thrown invalid_argument example_joints
 \<and> setMaxJerk example_joints [0] = Thrown invalid_argument example_joints
 \<and> setGoalPositionAndVelocity example_joints [2] [] = Thrown invalid_argument example_joints
 \<and> setGoalPosition example_joints [2, 3] = Thrown invalid_argument example_joints
 \<and> reInitialize example_joints [] = Thrown invalid_argument example_joints"
proof -
  have "\<exists>s'. setMaxVelocity example_joints [1, 1] = Thrown invalid_argument s'"
    and "\<exists>s'. setMaxAcceleration example_joints [-1] = Thrown invalid_argument s'"
    and "\<exists>s'. setMaxJerk example_joints [0] = Thrown invalid_argument s'"
    and "\<exists>s'. setGoalPositionAndVelocity example_joints [2] [] = Thrown invalid_argument s'"
    and "\<exists>s'. setGoalPosition example_joints [2, 3] = Thrown invalid_argument s'"
    and "\<exists>s'. reInitialize example_joints [] = Thrown invalid_argument s'"
    by (simp_all add: setMaxVelocity_def setMaxAcceleration_def setMaxJerk_def
        setGoalPositionAndVelocity_def setGoalPosition_def reInitialize_def example_joints_def)
  then show ?thesis
    using invalid_argument_leaves_state [of example_joints] by metis
qed

section \<open>Angular outputs of the pose generator\<close>

text \<open>
  C9. \<open>getNextAngularVelocity\<close> and \<open>getNextAngularAcceleration\<close> are the products of
  the reference frame with the last three of the six components of the solver's new
  velocity and new acceleration.
\<close>

theorem angular_outputs_in_base_frame:
  assumes "reference_frame s = [[r11, r12, r13], [r21, r22, r23], [r31, r32, r33]]"
    and "length (new_velocity (output6 s)) = 6"
    and "length (new_acceleration (output6 s)) = 6"
  shows "getNextAngularVelocity s =
           [r11 * new_velocity (output6 s) ! 3 + r12 * new_velocity (output6 s) ! 4
              + r13 * new_velocity (output6 s) ! 5,
            r21 * new_velocity (output6 s) ! 3 + r22 * new_velocity (output6 s) ! 4
              + r23 * new_velocity (output6 s) ! 5,
            r31 * new_velocity (output6 s) ! 3 + r32 * new_velocity (output6 s) ! 4
              + r33 * new_velocity (output6 s) ! 5]
       \<and> getNextAngularAcceleration s =
           [r11 * new_acceleration (output6 s) ! 3 + r12 * new_acceleration (output6 s) ! 4
              + r13 * new_acceleration (output6 s) ! 5,
            r21 * new_acceleration (output6 s) ! 3 + r22 * new_acceleration (output6 s) ! 4
              + r23 * new_acceleration (output6 s) ! 5,
            r31 * new_acceleration (output6 s) ! 3 + r32 * new_acceleration (output6 s) ! 4
              + r33 * new_acceleration (output6 s) ! 5]"
  using assms
  by (simp add: getNextAngularVelocity_def getNextAngularAcceleration_def mat_vec_tail3)

text \<open>
  The theorem at the test pose generator: the quarter turn takes the tangent-space
  angular velocity (4, 5, 6) to (-5, 4, 6).
\<close>

theorem angular_outputs_in_base_frame_witness:
  "getNextAngularVelocity example_pose = [-5, 4, 6]
   \<and> getNextAngularAcceleration example_pose = [0, 1, 0]"
proof -
  have "reference_frame example_pose = [[0, -1, 0], [1, 0, 0], [0, 0, 1]]"
    and "length (new_velocity (output6 example_pose)) = 6"
    and "length (new_acceleration (output6 example_pose)) = 6"
    by (simp_all add: example_pose_def)
  from angular_outputs_in_base_frame [OF this]
  show ?thesis by (simp add: example_pose_def)
qed

end
